theory Spec2Isabelle
  imports Complex_Main
begin

section \<open>Piano transcription pipeline (piano\_extraction.py)\<close>

text \<open>
  Shallow embedding of the class \<open>PianoExtractor\<close>. Python floats (frequencies, times,
  durations, samples) are modelled as \<^typ>\<open>real\<close>, Python integers as \<^typ>\<open>int\<close>.
  The outputs of the numerical libraries (pyin pitch track, STFT, MuseScore, music21,
  reportlab, the file system) are inputs of the model.
\<close>

subsection \<open>Python primitives\<close>

definition py_round :: "real \<Rightarrow> int" where
  \<comment> \<open>Python's \<open>round(x)\<close>: nearest integer, ties to the even one.\<close>
  "py_round x =
     (let f = \<lfloor>x\<rfloor>; d = x - of_int f
      in if d < 1/2 then f
         else if 1/2 < d then f + 1
         else if even f then f else f + 1)"

fun py_min_key_aux :: "('a \<Rightarrow> real) \<Rightarrow> 'a \<Rightarrow> 'a list \<Rightarrow> 'a" where
  "py_min_key_aux key best [] = best"
| "py_min_key_aux key best (y # ys) =
     py_min_key_aux key (if key y < key best then y else best) ys"

datatype error =
    ImportError
  | FileNotFoundError
  | KeyError
  | ValueError
  | OSError
  | Exception string

definition py_min_key :: "'a list \<Rightarrow> ('a \<Rightarrow> real) \<Rightarrow> error + 'a" where
  \<comment> \<open>Python's \<open>min(xs, key=k)\<close>: the first element whose key is minimal;
      ValueError on an empty list.\<close>
  "py_min_key xs key =
     (case xs of [] \<Rightarrow> Inl ValueError | x # ys \<Rightarrow> Inr (py_min_key_aux key x ys))"

subsection \<open>Pitch Mapper: \<open>_frequency_to_note\<close>\<close>

definition NOTE_NAMES :: "string list" where
  "NOTE_NAMES = [''C'', ''C#'', ''D'', ''D#'', ''E'', ''F'', ''F#'', ''G'', ''G#'', ''A'', ''A#'', ''B'']"

definition A4 :: real where
  "A4 = 440"

definition semitones_rounded_of :: "real \<Rightarrow> int" where
  \<comment> \<open>\<open>round(12 * np.log2(frequency / A4))\<close>\<close>
  "semitones_rounded_of frequency = py_round (12 * log 2 (frequency / A4))"

definition octave_of_C4_offset :: "int \<Rightarrow> int" where
  \<comment> \<open>The two branches of the source; \<open>//\<close> is Python's floor division, which is
      \<open>div\<close> on \<^typ>\<open>int\<close>.\<close>
  "octave_of_C4_offset semitones_from_C4 =
     (if semitones_from_C4 \<ge> 0 then 4 + semitones_from_C4 div 12
      else 4 + (semitones_from_C4 - 11) div 12)"

definition frequency_to_note :: "real \<Rightarrow> string option \<times> int option" where
  "frequency_to_note frequency =
     (if frequency \<le> 0 then (None, None)
      else
        let semitones_rounded = semitones_rounded_of frequency;
            note_index = (semitones_rounded + 9) mod 12;
            semitones_from_C4 = semitones_rounded + 9;
            octave = octave_of_C4_offset semitones_from_C4;
            doubled_freq = frequency * 2;
            correct = (octave < 1 \<and> frequency < 65 \<and> 32 \<le> doubled_freq \<and> doubled_freq \<le> 4186);
            semitones_rounded_doubled = semitones_rounded_of doubled_freq;
            note_index = (if correct then (semitones_rounded_doubled + 9) mod 12 else note_index);
            octave = (if correct then octave_of_C4_offset (semitones_rounded_doubled + 9) else octave);
            frequency = (if correct then doubled_freq else frequency)
        in if octave < 0 \<or> octave > 8 then (None, None)
           else if frequency < 30 \<and> octave \<ge> 1 then
             (let octave = octave - 1
              in if octave < 0 then (None, None)
                 else (Some (NOTE_NAMES ! nat note_index), Some octave))
           else (Some (NOTE_NAMES ! nat note_index), Some octave))"

subsection \<open>Note Segmenter: \<open>extract_notes_from_piano_audio\<close>\<close>

text \<open>
  A note is the tuple \<open>(time, note_name, octave, frequency, duration)\<close> of the source.
  A frame carries \<open>times[i]\<close>, \<open>f0[i]\<close> (\<open>None\<close> is NaN) and \<open>voiced_flag[i]\<close>,
  the outputs of \<open>librosa.pyin\<close> and \<open>librosa.frames_to_time\<close>.
\<close>

type_synonym note_tuple = "real \<times> string \<times> int \<times> real \<times> real"

record frame =
  f_time :: real
  f0 :: "real option"
  voiced_flag :: bool

definition min_note_duration :: real where
  "min_note_duration = 1 / 10"

definition min_onset_gap :: real where
  "min_onset_gap = 5 / 100"

definition effective_fmin :: "real \<Rightarrow> real" where
  "effective_fmin fmin = max fmin 60"

definition effective_fmax :: "real \<Rightarrow> real" where
  "effective_fmax fmax = min fmax 2000"

text \<open>
  The loop variables \<open>current_note\<close>, \<open>current_note_start_idx\<close> and
  \<open>current_note_start_time\<close> are assigned together and cleared together, so the state
  holds them as one optional triple, next to the list \<open>notes\<close> (field \<open>notes_acc\<close>).
\<close>

record seg_state =
  current :: "(note_tuple \<times> nat \<times> real) option"
  notes_acc :: "note_tuple list"

definition close_note :: "real \<Rightarrow> note_tuple \<times> nat \<times> real \<Rightarrow> note_tuple list \<Rightarrow> note_tuple list" where
  \<comment> \<open>\<open>duration = time - current_note_start_time\<close>; the note is appended when it is
      at least \<open>min_note_duration\<close> long.\<close>
  "close_note time cur ns =
     (case cur of ((t, nm, oc, fr, _), _, current_note_start_time) \<Rightarrow>
        let duration = time - current_note_start_time
        in if duration \<ge> min_note_duration then ns @ [(t, nm, oc, fr, duration)] else ns)"

definition resolve_pitch :: "real \<Rightarrow> real \<Rightarrow> real \<Rightarrow> (string \<times> int \<times> real) option" where
  \<comment> \<open>Pitch of a valid frame after the octave checks; \<open>None\<close> where the source
      skips the frame (\<open>continue\<close>, or \<open>note_name\<close> is \<open>None\<close>).\<close>
  "resolve_pitch efmin efmax freq =
     (case frequency_to_note freq of
        (Some note_name, Some octave) \<Rightarrow>
          (if octave < 1 then
             (let doubled_freq = freq * 2
              in if efmin \<le> doubled_freq \<and> doubled_freq \<le> efmax then
                   (case frequency_to_note doubled_freq of
                      (Some note_name_doubled, Some octave_doubled) \<Rightarrow>
                        if 1 \<le> octave_doubled \<and> octave_doubled \<le> 7
                        then (if octave_doubled > 7 then None
                              else Some (note_name_doubled, octave_doubled, doubled_freq))
                        else None
                    | _ \<Rightarrow> None)
                 else None)
           else if octave > 7 then None
           else Some (note_name, octave, freq))
      | _ \<Rightarrow> None)"

definition is_continuation :: "note_tuple \<Rightarrow> string \<Rightarrow> int \<Rightarrow> real \<Rightarrow> bool" where
  "is_continuation current_note note_name octave freq =
     (case current_note of (_, cn_name, cn_octave, current_freq, _) \<Rightarrow>
        let freq_ratio = (if current_freq > 0 then freq / current_freq else 1);
            cents_diff = (if freq_ratio > 0 then 1200 * log 2 freq_ratio else 1000)
        in \<bar>cents_diff\<bar> < 50 \<and> cn_name = note_name \<and> cn_octave = octave)"

definition valid_frequency :: "real \<Rightarrow> real \<Rightarrow> frame \<Rightarrow> real option" where
  \<comment> \<open>The frequency of a frame that passes the check
      \<open>not np.isnan(freq) and voiced_flag[i] and effective_fmin <= freq <= effective_fmax\<close>.\<close>
  "valid_frequency efmin efmax fr =
     (case f0 fr of
        Some freq \<Rightarrow>
          if voiced_flag fr \<and> efmin \<le> freq \<and> freq \<le> efmax then Some freq else None
      | None \<Rightarrow> None)"

definition seg_step :: "real \<Rightarrow> real \<Rightarrow> seg_state \<Rightarrow> nat \<times> frame \<Rightarrow> seg_state" where
  \<comment> \<open>One iteration of \<open>for i, (time, freq) in enumerate(zip(times, f0))\<close>.\<close>
  "seg_step efmin efmax st ifr =
     (case ifr of (i, fr) \<Rightarrow>
        let time = f_time fr in
        (case valid_frequency efmin efmax fr of
           Some freq \<Rightarrow>
             (case resolve_pitch efmin efmax freq of
                None \<Rightarrow> st
              | Some (note_name, octave, freq) \<Rightarrow>
                  if (case current st of
                        Some (current_note, _, _) \<Rightarrow>
                          is_continuation current_note note_name octave freq
                      | None \<Rightarrow> False)
                  then st
                  else
                    \<lparr>current = Some ((time, note_name, octave, freq, 0), i, time),
                     notes_acc = (case current st of
                                    Some cur \<Rightarrow> close_note time cur (notes_acc st)
                                  | None \<Rightarrow> notes_acc st)\<rparr>)
         | None \<Rightarrow>
             (case current st of
                Some cur \<Rightarrow> \<lparr>current = None, notes_acc = close_note time cur (notes_acc st)\<rparr>
              | None \<Rightarrow> st)))"

definition seg_loop :: "real \<Rightarrow> real \<Rightarrow> frame list \<Rightarrow> seg_state" where
  "seg_loop efmin efmax frames =
     foldl (seg_step efmin efmax) \<lparr>current = None, notes_acc = []\<rparr> (enumerate 0 frames)"

definition finish_last :: "frame list \<Rightarrow> seg_state \<Rightarrow> note_tuple list" where
  \<comment> \<open>"Don't forget the last note".\<close>
  "finish_last frames st =
     (case current st of
        Some cur \<Rightarrow>
          if length frames > 0 then
            (let final_time =
                   (if length frames > 1
                    then f_time (last frames) + (f_time (frames ! 1) - f_time (frames ! 0))
                    else f_time (last frames))
             in close_note final_time cur (notes_acc st))
          else notes_acc st
      | None \<Rightarrow> notes_acc st)"

definition onset_filter_step :: "note_tuple list \<Rightarrow> note_tuple \<Rightarrow> note_tuple list" where
  \<comment> \<open>One iteration of the loop that builds \<open>filtered_notes\<close>. The list is empty
      exactly at \<open>i == 0\<close>, since the first note is always appended and nothing is
      ever removed.\<close>
  "onset_filter_step filtered_notes note =
     (if filtered_notes = [] then [note]
      else
        (case (last filtered_notes, note) of
           ((prev_time, prev_note_name, prev_octave, prev_freq, _),
            (current_time, current_note_name, current_octave, _, current_duration)) \<Rightarrow>
             let time_gap = current_time - prev_time;
                 is_same_note = (prev_note_name = current_note_name \<and> prev_octave = current_octave)
             in if time_gap \<ge> min_onset_gap \<or> \<not> is_same_note then filtered_notes @ [note]
                else if is_same_note \<and> time_gap < min_onset_gap then
                  (let new_end_time = current_time + current_duration;
                       new_duration = new_end_time - prev_time
                   in butlast filtered_notes @
                        [(prev_time, prev_note_name, prev_octave, prev_freq, new_duration)])
                else filtered_notes))"

definition onset_filter :: "note_tuple list \<Rightarrow> note_tuple list" where
  "onset_filter ns = foldl onset_filter_step [] ns"

subsection \<open>Duration Quantizer\<close>

definition standard_durations :: "real list" where
  "standard_durations = [4, 2, 1, 1/2, 1/4, 1/8, 1/16]"

definition quantize_duration :: "real \<Rightarrow> real" where
  "quantize_duration duration =
     (case py_min_key standard_durations (\<lambda>x. \<bar>x - duration\<bar>) of
        Inr quantized_duration \<Rightarrow>
          if quantized_duration < duration * (7 / 10) then duration else quantized_duration
      | Inl _ \<Rightarrow> duration)"

definition quantize_note :: "note_tuple \<Rightarrow> note_tuple" where
  "quantize_note n =
     (case n of (time, note_name, octave, freq, duration) \<Rightarrow>
        (time, note_name, octave, freq, quantize_duration duration))"

definition nearest_standard :: "real \<Rightarrow> real" where
  \<comment> \<open>The value of \<open>min(standard_durations, key=lambda x: abs(x - duration))\<close>.\<close>
  "nearest_standard d = py_min_key_aux (\<lambda>x. \<bar>x - d\<bar>) 4 [2, 1, 1/2, 1/4, 1/8, 1/16]"

definition extract_notes_from_piano_audio :: "real \<Rightarrow> real \<Rightarrow> frame list \<Rightarrow> note_tuple list" where
  \<comment> \<open>\<open>fmin\<close> and \<open>fmax\<close> default to 27.5 and 4186.0.\<close>
  "extract_notes_from_piano_audio fmin fmax frames =
     (let efmin = effective_fmin fmin;
          efmax = effective_fmax fmax;
          ns = finish_last frames (seg_loop efmin efmax frames);
          sorted_notes = sort_key fst ns;
          filtered_notes = onset_filter sorted_notes
      in map quantize_note filtered_notes)"

subsection \<open>MIDI Encoder: \<open>notes_to_midi\<close>\<close>

definition note_to_midi :: "string \<rightharpoonup> int" where
  "note_to_midi = map_of
     [(''C'', 0), (''C#'', 1), (''D'', 2), (''D#'', 3), (''E'', 4), (''F'', 5),
      (''F#'', 6), (''G'', 7), (''G#'', 8), (''A'', 9), (''A#'', 10), (''B'', 11)]"

text \<open>An event is one call \<open>midi.addNote(track, channel, midi_note, time_beat,
  duration_beat, volume)\<close>; track, channel and volume are the constants 0, 0 and 100.\<close>

record midi_event =
  midi_note :: int
  time_beat :: real
  duration_beat :: real

definition note_event :: "int \<Rightarrow> note_tuple \<Rightarrow> error + midi_event option" where
  \<comment> \<open>The body of the loop over \<open>notes\<close>: \<open>Inr None\<close> when the note is skipped,
      \<open>Inl KeyError\<close> when \<open>note_to_midi[note_name]\<close> raises.\<close>
  "note_event tempo n =
     (case n of (time_sec, note_name, octave, freq, duration) \<Rightarrow>
        if octave < 1 then Inr None
        else if octave > 7 then Inr None
        else
          (case note_to_midi note_name of
             None \<Rightarrow> Inl KeyError
           | Some off \<Rightarrow>
               let tb = (time_sec * of_int tempo) / 60;
                   mn = max 24 (min 108 ((octave + 1) * 12 + off));
                   db = max (1 / 8) (min ((duration * of_int tempo) / 60) 16)
               in if tb \<ge> 0 \<and> db > 0
                  then Inr (Some \<lparr>midi_note = mn, time_beat = tb, duration_beat = db\<rparr>)
                  else Inr None))"

fun midi_events :: "int \<Rightarrow> note_tuple list \<Rightarrow> error + midi_event list" where
  "midi_events tempo [] = Inr []"
| "midi_events tempo (n # ns) =
     (case note_event tempo n of
        Inl e \<Rightarrow> Inl e
      | Inr ev \<Rightarrow>
          (case midi_events tempo ns of
             Inl e \<Rightarrow> Inl e
           | Inr evs \<Rightarrow> Inr ((case ev of None \<Rightarrow> [] | Some x \<Rightarrow> [x]) @ evs)))"

definition notes_to_midi :: "bool \<Rightarrow> bool \<Rightarrow> int \<Rightarrow> note_tuple list \<Rightarrow> error + midi_event list" where
  \<comment> \<open>\<open>midiutil_available\<close> is the module flag, \<open>write_ok\<close> the outcome of writing the
      file; the result is the list of events written.\<close>
  "notes_to_midi midiutil_available write_ok tempo ns =
     (if \<not> midiutil_available then Inl ImportError
      else
        (case midi_events tempo ns of
           Inl e \<Rightarrow> Inl (Exception ''Error creating MIDI file'')
         | Inr evs \<Rightarrow>
             if write_ok then Inr evs else Inl (Exception ''Error creating MIDI file'')))"

text \<open>
  The statement of the encoder in the specification: a note is encoded when its octave is
  between 1 and 7, as the event \<open>claimed_event\<close>; \<open>emittable\<close> holds the two further
  conditions of the source, a known pitch class and an onset that is not negative.
\<close>

definition in_octave_range :: "note_tuple \<Rightarrow> bool" where
  "in_octave_range n = (case n of (_, _, octave, _, _) \<Rightarrow> 1 \<le> octave \<and> octave \<le> 7)"

definition claimed_event :: "int \<Rightarrow> note_tuple \<Rightarrow> midi_event" where
  "claimed_event tempo n =
     (case n of (time_sec, note_name, octave, _, duration) \<Rightarrow>
        \<lparr>midi_note =
           max 24 (min 108 ((octave + 1) * 12 +
             (case note_to_midi note_name of Some off \<Rightarrow> off | None \<Rightarrow> 0))),
         time_beat = time_sec * of_int tempo / 60,
         duration_beat = max (1 / 8) (min (duration * of_int tempo / 60) 16)\<rparr>)"

definition emittable :: "int \<Rightarrow> note_tuple \<Rightarrow> bool" where
  "emittable tempo n =
     (case n of (time_sec, note_name, _, _, _) \<Rightarrow>
        note_to_midi note_name \<noteq> None \<and> 0 \<le> time_sec * of_int tempo)"

subsection \<open>The invariant of the segmentation loop and two pitch streams\<close>

text \<open>
  \<open>seg_inv\<close> is the invariant of the loop over the frames. \<open>two_c4_segments h n1 g n2\<close> is
  a pitch track with hop \<open>h\<close> seconds: \<open>n1\<close> voiced frames of C4 (261.63 Hz), \<open>g\<close> unvoiced
  frames, \<open>n2\<close> voiced frames of C4; frame \<open>i\<close> is at time \<open>i * h\<close>, as
  \<open>librosa.frames_to_time\<close> gives it.
\<close>

definition seg_inv :: "seg_state \<Rightarrow> bool" where
  "seg_inv st =
     ((\<forall>n\<in>set (notes_acc st). in_octave_range n) \<and>
      (case current st of Some (cn, _, _) \<Rightarrow> in_octave_range cn | None \<Rightarrow> True))"

definition c4_frame :: "real \<Rightarrow> frame" where
  "c4_frame t = \<lparr>f_time = t, f0 = Some (26163/100), voiced_flag = True\<rparr>"

definition unvoiced_frame :: "real \<Rightarrow> frame" where
  "unvoiced_frame t = \<lparr>f_time = t, f0 = None, voiced_flag = False\<rparr>"

definition two_c4_segments :: "real \<Rightarrow> nat \<Rightarrow> nat \<Rightarrow> nat \<Rightarrow> frame list" where
  "two_c4_segments h n1 g n2 =
     map (\<lambda>i. c4_frame (real i * h)) [0..<n1] @
     map (\<lambda>i. unvoiced_frame (real i * h)) [n1..<n1 + g] @
     map (\<lambda>i. c4_frame (real i * h)) [n1 + g..<n1 + g + n2]"

subsection \<open>Source Separator: the final peak normalisation\<close>

definition np_max :: "real list \<Rightarrow> error + real" where
  \<comment> \<open>\<open>np.max\<close>: ValueError on an empty array.\<close>
  "np_max xs = (case xs of [] \<Rightarrow> Inl ValueError | x # ys \<Rightarrow> Inr (foldl max x ys))"

definition peak_normalize :: "real list \<Rightarrow> error + real list" where
  \<comment> \<open>Lines 182 to 186 of \<open>extract_piano_from_audio\<close>, on the filtered signal.\<close>
  "peak_normalize y_filtered =
     (case np_max (map abs y_filtered) of
        Inl e \<Rightarrow> Inl e
      | Inr peak \<Rightarrow>
          if peak > 0 then Inr (map (\<lambda>v. v / peak) y_filtered) else Inr y_filtered)"

subsection \<open>Notation Exporter and Pipeline Orchestrator\<close>

text \<open>
  The file system is a map from the paths that exist to the size of the file. The
  outcomes of the external libraries and programs are the fields of \<open>env\<close>; a size
  is the size of the file a successful call writes, \<open>None\<close> means the call raises.
\<close>

type_synonym fs = "string \<rightharpoonup> nat"

datatype run_result =
    TimeoutExpired
  | RunError
  | Completed "nat option"

record env =
  LIBROSA_AVAILABLE :: bool
  MIDIUTIL_AVAILABLE :: bool
  PRETTY_MIDI_AVAILABLE :: bool
  MUSIC21_AVAILABLE :: bool
  REPORTLAB_AVAILABLE :: bool
  filtered_signal :: "error + real list"
  sf_write :: "nat option"
  pyin_track :: "real list \<Rightarrow> frame list"
  midi_write :: "nat option"
  parse_ok :: bool
  musicxml_path_of :: "string \<Rightarrow> string"
  musicxml_write :: "nat option"
  musescore_run :: run_result
  remove_ok :: bool
  music21_pdf_write :: "nat option"
  canvas_in_fallback :: "nat option"
  canvas_final :: "nat option"
  fluidsynth_write :: "nat option"

text \<open>
  \<open>filtered_signal\<close> is \<open>y_filtered\<close> after lines 95 to 180 (loading, separation,
  masking, smoothing); \<open>pyin_track\<close> the frames of the pitch tracker on a signal;
  \<open>musicxml_path_of\<close> the path built with \<open>os.path\<close> from the PDF path;
  \<open>musescore_run\<close> the outcome of \<open>subprocess.run\<close>, \<open>Completed w\<close> having written a
  PDF of size \<open>w\<close> or none; \<open>canvas_in_fallback\<close> and \<open>canvas_final\<close> the outcome of the
  reportlab drawing at the two places \<open>_generate_simple_sheet_pdf\<close> is called from.
\<close>

definition default_musescore_path :: string where
  "default_musescore_path =
     ''C:'' @ [CHR 0x5C] @ ''Program Files'' @ [CHR 0x5C] @ ''MuseScore 4'' @ [CHR 0x5C] @
     ''bin'' @ [CHR 0x5C] @ ''MuseScore4.exe''"

definition extract_piano_from_audio :: "env \<Rightarrow> error + real list" where
  "extract_piano_from_audio e =
     (if \<not> LIBROSA_AVAILABLE e then Inl ImportError
      else
        (case filtered_signal e of
           Inl err \<Rightarrow> Inl err
         | Inr y_filtered \<Rightarrow> peak_normalize y_filtered))"

definition musicxml_to_pdf ::
  "env \<Rightarrow> string \<Rightarrow> string \<Rightarrow> string option \<Rightarrow> fs \<Rightarrow> (error + bool) \<times> fs" where
  "musicxml_to_pdf e musicxml_path pdf_path musescore_path files =
     (let musescore_path =
            (case musescore_path of None \<Rightarrow> default_musescore_path | Some p \<Rightarrow> p)
      in if files musescore_path = None then (Inl FileNotFoundError, files)
         else if files musicxml_path = None then (Inl FileNotFoundError, files)
         else
           (case musescore_run e of
              TimeoutExpired \<Rightarrow>
                (Inl (Exception ''MuseScore conversion timed out after 60 seconds''), files)
            | RunError \<Rightarrow> (Inl (Exception ''Error converting MusicXML to PDF''), files)
            | Completed w \<Rightarrow>
                (let files' = (case w of None \<Rightarrow> files | Some sz \<Rightarrow> files(pdf_path \<mapsto> sz))
                 in if (case files' pdf_path of None \<Rightarrow> False | Some sz \<Rightarrow> sz > 0)
                    then (Inr True, files')
                    else (Inl (Exception ''Error converting MusicXML to PDF''), files'))))"

definition midi_to_pdf_workflow ::
  "env \<Rightarrow> string \<Rightarrow> string \<Rightarrow> string option \<Rightarrow> fs \<Rightarrow> (error + bool) \<times> fs" where
  \<comment> \<open>Metadata, tempo mark and quantisation touch no file, and a failed quantisation
      is caught; every other exception inside the \<open>try\<close> is raised again as
      \<open>Exception\<close>.\<close>
  "midi_to_pdf_workflow e midi_path pdf_path musescore_path files =
     (if \<not> MUSIC21_AVAILABLE e then (Inl ImportError, files)
      else if \<not> parse_ok e then (Inl (Exception ''Error in MIDI to PDF workflow''), files)
      else
        (let musicxml_path = musicxml_path_of e pdf_path
         in case musicxml_write e of
              None \<Rightarrow> (Inl (Exception ''Error in MIDI to PDF workflow''), files)
            | Some sz \<Rightarrow>
                (case musicxml_to_pdf e musicxml_path pdf_path musescore_path
                        (files(musicxml_path \<mapsto> sz)) of
                   (Inl err, files2) \<Rightarrow>
                     (Inl (Exception ''Error in MIDI to PDF workflow''), files2)
                 | (Inr _, files2) \<Rightarrow>
                     (Inr True,
                      if files2 musicxml_path \<noteq> None \<and> remove_ok e
                      then files2(musicxml_path := None) else files2))))"

definition generate_simple_sheet_pdf ::
  "bool \<Rightarrow> nat option \<Rightarrow> string \<Rightarrow> fs \<Rightarrow> (error + bool) \<times> fs" where
  "generate_simple_sheet_pdf reportlab_available canvas output_path files =
     (if \<not> reportlab_available then (Inl ImportError, files)
      else
        (case canvas of
           None \<Rightarrow> (Inl (Exception ''Error creating simple PDF''), files)
         | Some sz \<Rightarrow> (Inr True, files(output_path \<mapsto> sz))))"

definition generate_sheet_music_pdf :: "env \<Rightarrow> string \<Rightarrow> fs \<Rightarrow> (error + bool) \<times> fs" where
  "generate_sheet_music_pdf e output_path files =
     (if \<not> MUSIC21_AVAILABLE e then
        generate_simple_sheet_pdf (REPORTLAB_AVAILABLE e) (canvas_in_fallback e) output_path files
      else
        (case music21_pdf_write e of
           Some sz \<Rightarrow> (Inr True, files(output_path \<mapsto> sz))
         | None \<Rightarrow>
             generate_simple_sheet_pdf (REPORTLAB_AVAILABLE e) (canvas_in_fallback e)
               output_path files))"

definition midi_to_audio :: "env \<Rightarrow> string \<Rightarrow> fs \<Rightarrow> (error + bool) \<times> fs" where
  "midi_to_audio e output_audio_path files =
     (if \<not> PRETTY_MIDI_AVAILABLE e then (Inl ImportError, files)
      else
        (case fluidsynth_write e of
           None \<Rightarrow> (Inl (Exception ''Error synthesizing MIDI to audio''), files)
         | Some sz \<Rightarrow> (Inr True, files(output_audio_path \<mapsto> sz))))"

record paths =
  piano_audio_path :: string
  midi_path :: string
  pdf_path :: string
  synthesized_audio_path :: string

record manifest =
  piano_audio :: string
  midi :: string
  pdf :: string
  synthesized_audio :: "string option"
  notes_count :: nat

definition notation_stage :: "env \<Rightarrow> paths \<Rightarrow> fs \<Rightarrow> (error + bool) \<times> fs" where
  \<comment> \<open>Step 4 of \<open>process_audio_to_piano_sheet\<close>: the workflow, then the two fallbacks;
      the last one is outside every \<open>try\<close>.\<close>
  "notation_stage e p files =
     (case midi_to_pdf_workflow e (midi_path p) (pdf_path p) None files of
        (Inr ok, files1) \<Rightarrow> (Inr ok, files1)
      | (Inl err, files1) \<Rightarrow>
          (case generate_sheet_music_pdf e (pdf_path p) files1 of
             (Inr ok, files2) \<Rightarrow> (Inr ok, files2)
           | (Inl err2, files2) \<Rightarrow>
               generate_simple_sheet_pdf (REPORTLAB_AVAILABLE e) (canvas_final e)
                 (pdf_path p) files2))"

definition process_audio_to_piano_sheet ::
  "env \<Rightarrow> paths \<Rightarrow> int \<Rightarrow> fs \<Rightarrow> (error + manifest) \<times> fs" where
  \<comment> \<open>The paths are the ones built with \<open>os.path.join\<close> from \<open>output_dir\<close> and the
      input's base name; \<open>os.makedirs\<close> has succeeded and there is no callback.\<close>
  "process_audio_to_piano_sheet e p tempo files =
     (case extract_piano_from_audio e of
        Inl err \<Rightarrow> (Inl err, files)
      | Inr piano_audio_signal \<Rightarrow>
          (case sf_write e of
             None \<Rightarrow> (Inl OSError, files)
           | Some wav_size \<Rightarrow>
               let files1 = files(piano_audio_path p \<mapsto> wav_size);
                   ns = extract_notes_from_piano_audio (55 / 2) 4186 (pyin_track e piano_audio_signal)
               in if ns = [] then (Inl (Exception ''No notes extracted from audio''), files1)
                  else
                    (case notes_to_midi (MIDIUTIL_AVAILABLE e) (midi_write e \<noteq> None) tempo ns of
                       Inl err \<Rightarrow> (Inl err, files1)
                     | Inr evs \<Rightarrow>
                         let files2 = (case midi_write e of
                                         None \<Rightarrow> files1
                                       | Some sz \<Rightarrow> files1(midi_path p \<mapsto> sz))
                         in (case notation_stage e p files2 of
                               (Inl err, files3) \<Rightarrow> (Inl err, files3)
                             | (Inr _, files3) \<Rightarrow>
                                 (case midi_to_audio e (synthesized_audio_path p) files3 of
                                    (Inl _, files4) \<Rightarrow>
                                      (Inr \<lparr>piano_audio = piano_audio_path p, midi = midi_path p,
                                            pdf = pdf_path p, synthesized_audio = None,
                                            notes_count = length ns\<rparr>, files4)
                                  | (Inr _, files4) \<Rightarrow>
                                      (Inr \<lparr>piano_audio = piano_audio_path p, midi = midi_path p,
                                            pdf = pdf_path p,
                                            synthesized_audio = Some (synthesized_audio_path p),
                                            notes_count = length ns\<rparr>, files4))))))"

text \<open>
  An environment and the paths of a run on the input \<open>song.wav\<close> with the output
  directory \<open>out\<close>: every library is present except pretty\_midi, the pitch track is two
  segments of C4, music21 cannot write a PDF and the reportlab drawing fails.
\<close>

definition example_env :: env where
  "example_env =
     \<lparr>LIBROSA_AVAILABLE = True, MIDIUTIL_AVAILABLE = True, PRETTY_MIDI_AVAILABLE = False,
      MUSIC21_AVAILABLE = True, REPORTLAB_AVAILABLE = True,
      filtered_signal = Inr [1, -2], sf_write = Some 44,
      pyin_track = (\<lambda>_. two_c4_segments (1/100) 10 3 10), midi_write = Some 80,
      parse_ok = True, musicxml_path_of = (\<lambda>_. ''out/song_sheet_music.musicxml''),
      musicxml_write = Some 900, musescore_run = Completed (Some 5000), remove_ok = True,
      music21_pdf_write = None, canvas_in_fallback = None, canvas_final = None,
      fluidsynth_write = None\<rparr>"

definition no_files :: fs where
  "no_files = Map.empty"

definition example_paths :: paths where
  "example_paths =
     \<lparr>piano_audio_path = ''out/song_piano.wav'', midi_path = ''out/song_piano.mid'',
      pdf_path = ''out/song_sheet_music.pdf'',
      synthesized_audio_path = ''out/song_synthesized.wav''\<rparr>"

subsection \<open>Facts about the primitives\<close>

lemma py_round_of_int: "py_round (of_int n) = n"
  by (simp add: py_round_def)

lemma py_round_between:
  assumes "of_int n - 1/2 < x" and "x < of_int n + 1/2"
  shows "py_round x = n"
proof (cases "of_int n \<le> x")
  case True
  with assms have fl: "\<lfloor>x\<rfloor> = n" by linarith
  with assms show ?thesis by (simp add: py_round_def Let_def)
next
  case False
  with assms have fl: "\<lfloor>x\<rfloor> = n - 1" by linarith
  with assms False show ?thesis by (simp add: py_round_def Let_def)
qed

lemma py_round_ge:
  assumes "of_int n - 1/2 < x"
  shows "n \<le> py_round x"
proof -
  have "n - 1 \<le> \<lfloor>x\<rfloor>" using assms by linarith
  then consider "\<lfloor>x\<rfloor> = n - 1" | "n \<le> \<lfloor>x\<rfloor>" by linarith
  then show ?thesis
  proof cases
    case 1
    with assms have "1/2 < x - of_int \<lfloor>x\<rfloor>" by simp
    with 1 show ?thesis by (simp add: py_round_def Let_def)
  next
    case 2
    then show ?thesis by (auto simp: py_round_def Let_def)
  qed
qed

lemma py_round_le:
  assumes "x < of_int n + 1/2"
  shows "py_round x \<le> n"
proof -
  have "\<lfloor>x\<rfloor> \<le> n" using assms by linarith
  then consider "\<lfloor>x\<rfloor> = n" | "\<lfloor>x\<rfloor> + 1 \<le> n" by linarith
  then show ?thesis
  proof cases
    case 1
    with assms have "x - of_int \<lfloor>x\<rfloor> < 1/2" by simp
    with 1 show ?thesis by (simp add: py_round_def Let_def)
  next
    case 2
    then show ?thesis by (auto simp: py_round_def Let_def)
  qed
qed

lemma log2_lower:
  fixes r :: real
  assumes "0 < r" and "2 ^ a < r ^ 24 * 2 ^ b"
  shows "real a < 24 * log 2 r + real b"
proof -
  have "log 2 (2 ^ a) < log 2 (r ^ 24 * 2 ^ b)"
    using assms by (subst log_less_cancel_iff) simp_all
  moreover have "log 2 ((2::real) ^ a) = real a"
    by (subst log_nat_power) simp_all
  moreover have "log 2 (r ^ 24 * 2 ^ b) = 24 * log 2 r + real b"
    using assms(1) by (simp add: log_mult log_nat_power)
  ultimately show ?thesis by simp
qed

lemma log2_upper:
  fixes r :: real
  assumes "0 < r" and "r ^ 24 * 2 ^ b < 2 ^ a"
  shows "24 * log 2 r + real b < real a"
proof -
  have "log 2 (r ^ 24 * 2 ^ b) < log 2 (2 ^ a)"
    using assms by (subst log_less_cancel_iff) simp_all
  moreover have "log 2 ((2::real) ^ a) = real a"
    by (subst log_nat_power) simp_all
  moreover have "log 2 (r ^ 24 * 2 ^ b) = 24 * log 2 r + real b"
    using assms(1) by (simp add: log_mult log_nat_power)
  ultimately show ?thesis by simp
qed

lemma log2_window:
  fixes r :: real
  assumes r: "0 < r"
    and lo: "2 ^ a < r ^ 24 * 2 ^ b"
    and hi: "r ^ 24 * 2 ^ b < 2 ^ (a + 2)"
    and n: "int a - int b = 2 * n - 1"
  shows "py_round (12 * log 2 r) = n"
proof -
  have l: "real a < 24 * log 2 r + real b"
    using r lo by (rule log2_lower)
  have "24 * log 2 r + real b < real (a + 2)"
    using r hi by (rule log2_upper)
  then have h: "24 * log 2 r + real b < real a + 2" by simp
  have n': "real a - real b = 2 * real_of_int n - 1"
    using n by (metis of_int_diff of_int_of_nat_eq of_int_mult of_int_numeral of_int_1)
  show ?thesis
    by (rule py_round_between) (use l h n' in linarith)+
qed

lemma semitones_220: "semitones_rounded_of 220 = -12"
  unfolding semitones_rounded_of_def A4_def
  by (rule log2_window[where a=0 and b=25]) (simp_all add: power_divide)

lemma semitones_C4: "semitones_rounded_of (26163/100) = -9"
  unfolding semitones_rounded_of_def A4_def
  by (rule log2_window[where a=0 and b=19]) (simp_all add: power_divide)

lemma semitones_18: "semitones_rounded_of 18 = -55"
  unfolding semitones_rounded_of_def A4_def
  by (rule log2_window[where a=0 and b=111]) (simp_all add: power_divide)

lemma semitones_36: "semitones_rounded_of 36 = -43"
  unfolding semitones_rounded_of_def A4_def
  by (rule log2_window[where a=0 and b=87]) (simp_all add: power_divide)

lemma semitones_7040: "semitones_rounded_of 7040 = 48"
  unfolding semitones_rounded_of_def A4_def
  by (rule log2_window[where a=95 and b=0]) (simp_all add: power_divide)

subsection \<open>The pitch mapper at concrete frequencies\<close>

text \<open>
  For a negative offset from C4 the source's octave is the floor-division octave only
  when the offset is 11 modulo 12, and one octave lower otherwise.
\<close>

lemma octave_of_C4_offset_negative:
  assumes "c < 0"
  shows "octave_of_C4_offset c = (if c mod 12 = 11 then 4 + c div 12 else 3 + c div 12)"
proof -
  define q where "q = c div 12"
  define r where "r = c mod 12"
  have c: "c = 12 * q + r" and r: "0 \<le> r" "r < 12"
    by (simp_all add: q_def r_def)
  have "(c - 11) div 12 = (if r = 11 then q else q - 1)"
  proof (cases "r = 11")
    case True
    then have "c - 11 = q * 12" using c by simp
    then show ?thesis using True by simp
  next
    case False
    with r have "0 \<le> r + 1" "r + 1 < 12" by simp_all
    then have "(r + 1) div 12 = 0" by simp
    moreover have "c - 11 = (q - 1) * 12 + (r + 1)" using c by simp
    ultimately have "(c - 11) div 12 = q - 1"
      by (metis \<open>0 \<le> r + 1\<close> \<open>r + 1 < 12\<close> add.commute div_mult_self2 div_pos_pos_trivial add_0 zero_neq_numeral mult.commute)
    with False show ?thesis by simp
  qed
  with assms show ?thesis
    by (simp add: octave_of_C4_offset_def q_def r_def)
qed

lemma frequency_to_note_C4: "frequency_to_note (26163/100) = (Some ''C'', Some 4)"
  by (simp add: frequency_to_note_def semitones_C4 octave_of_C4_offset_def NOTE_NAMES_def Let_def)

text \<open>
  Claim C1. For a frequency above 0 the octave is 4 plus the floor division by 12 of the
  rounded semitone offset from C4, also when the offset is negative, so that A3 = 220 Hz
  (offset -3) is in octave 3. The source subtracts 11 before a division that already
  rounds down: at 220 Hz the offset is -3, floor division gives octave 3, and
  \<open>_frequency_to_note\<close> returns octave 2.
\<close>

theorem frequency_to_note_A3_octave:
  "semitones_rounded_of 220 + 9 = -3 \<and> 4 + (-3::int) div 12 = 3 \<and>
   frequency_to_note 220 = (Some ''A'', Some 2)"
  by (simp add: frequency_to_note_def semitones_220 octave_of_C4_offset_def NOTE_NAMES_def Let_def)

subsection \<open>The frequencies the pitch mapper rejects\<close>

lemma semitones_low:
  assumes "0 < f" "f < 16"
  shows "semitones_rounded_of f \<le> -57"
proof -
  have r: "0 < f / 440" using assms by simp
  have "(f / 440) ^ 24 < (16 / 440) ^ 24"
    using assms by (intro power_strict_mono) simp_all
  also have "\<dots> < 1 / 2 ^ 113" by (simp add: power_divide)
  finally have "(f / 440) ^ 24 * 2 ^ 113 < 2 ^ 0" by (simp add: field_simps)
  with r have "24 * log 2 (f / 440) + real 113 < real 0" by (rule log2_upper)
  then have "12 * log 2 (f / 440) < of_int (-57) + 1/2" by simp
  then show ?thesis
    unfolding semitones_rounded_of_def A4_def by (rule py_round_le)
qed

lemma semitones_high:
  assumes "8134 \<le> f"
  shows "51 \<le> semitones_rounded_of f"
proof -
  have r: "0 < f / 440" using assms by simp
  have "(2::real) ^ 101 < (8134 / 440) ^ 24" by (simp add: power_divide)
  also have "\<dots> \<le> (f / 440) ^ 24"
    using assms by (intro power_mono) simp_all
  finally have "(2::real) ^ 101 < (f / 440) ^ 24 * 2 ^ 0" by simp
  with r have "real 101 < 24 * log 2 (f / 440) + real 0" by (rule log2_lower)
  then have "of_int 51 - 1/2 < 12 * log 2 (f / 440)" by simp
  then show ?thesis
    unfolding semitones_rounded_of_def A4_def by (rule py_round_ge)
qed

text \<open>
  Claim C3 as stated: every frequency below 20 Hz and every frequency above 5000 Hz gives
  \<open>(None, None)\<close>. It fails at 18 Hz, which is doubled to 36 Hz and returned as D0, and
  at 7040 Hz, returned as A8: the source rejects on the octave (below 0 or above 8), not
  on the frequency.
\<close>

theorem frequency_to_note_range_counterexample:
  "(0::real) < 18 \<and> (18::real) < 20 \<and> frequency_to_note 18 = (Some ''D'', Some 0) \<and>
   (5000::real) < 7040 \<and> frequency_to_note 7040 = (Some ''A'', Some 8)"
  by (simp add: frequency_to_note_def semitones_18 semitones_36 semitones_7040
      octave_of_C4_offset_def NOTE_NAMES_def Let_def)

text \<open>
  Claim C3, amended: every frequency above 0 and up to 15.8 Hz, and every frequency of at
  least 8134 Hz, gives \<open>(None, None)\<close>. These are the frequencies whose octave is below 0
  or above 8, also with a floor division that is right for negative offsets.
\<close>

theorem frequency_to_note_out_of_range:
  assumes "(0 < f \<and> f \<le> 79 / 5) \<or> 8134 \<le> f"
  shows "frequency_to_note f = (None, None)"
  using assms
proof
  assume a: "0 < f \<and> f \<le> 79 / 5"
  then have "semitones_rounded_of f \<le> -57" by (simp add: semitones_low)
  then have "octave_of_C4_offset (semitones_rounded_of f + 9) < 0"
    unfolding octave_of_C4_offset_def by simp
  with a show ?thesis by (simp add: frequency_to_note_def Let_def)
next
  assume a: "8134 \<le> f"
  then have "51 \<le> semitones_rounded_of f" by (rule semitones_high)
  then have "8 < octave_of_C4_offset (semitones_rounded_of f + 9)"
    unfolding octave_of_C4_offset_def by simp
  with a show ?thesis by (simp add: frequency_to_note_def Let_def)
qed

theorem frequency_to_note_out_of_range_witness:
  "frequency_to_note 10 = (None, None) \<and> frequency_to_note 9000 = (None, None)"
  using frequency_to_note_out_of_range[of 10] frequency_to_note_out_of_range[of 9000] by simp

subsection \<open>The duration quantizer\<close>

lemma py_min_key_aux_mem: "py_min_key_aux key best ys \<in> insert best (set ys)"
  by (induction ys arbitrary: best) auto



lemma quantize_duration_nearest:
  "quantize_duration d =
     (if nearest_standard d < d * (7 / 10) then d else nearest_standard d)"
  unfolding quantize_duration_def py_min_key_def standard_durations_def nearest_standard_def
  by (simp only: list.case sum.case)

lemma nearest_standard_mem: "nearest_standard d \<in> set standard_durations"
proof -
  have "set standard_durations = insert 4 (set [2, 1, 1/2, 1/4, 1/8, 1/16])"
    by (simp add: standard_durations_def)
  then show ?thesis
    unfolding nearest_standard_def by (simp only: py_min_key_aux_mem)
qed





lemma quantize_duration_standard:
  assumes "q \<in> set standard_durations"
  shows "quantize_duration q = q"
proof -
  from assms consider "q = 4" | "q = 2" | "q = 1" | "q = 1/2" | "q = 1/4" | "q = 1/8" | "q = 1/16"
    by (auto simp: standard_durations_def)
  then show ?thesis
    by cases (simp_all add: quantize_duration_nearest nearest_standard_def)
qed

text \<open>
  Claim C9. The duration quantization is idempotent.
\<close>

theorem quantize_duration_idempotent:
  "quantize_duration (quantize_duration d) = quantize_duration d"
proof (cases "nearest_standard d < d * (7 / 10)")
  case True
  then show ?thesis by (simp add: quantize_duration_nearest)
next
  case False
  then have "quantize_duration d = nearest_standard d" by (simp add: quantize_duration_nearest)
  then show ?thesis
    using quantize_duration_standard[OF nearest_standard_mem[of d]] by simp
qed

subsection \<open>The MIDI encoder\<close>

lemma note_event_skipped:
  "\<not> in_octave_range n \<Longrightarrow> note_event tempo n = Inr None"
  by (auto simp: in_octave_range_def note_event_def split: prod.splits)

lemma note_event_emitted:
  assumes "in_octave_range n" and "emittable tempo n"
  shows "note_event tempo n = Inr (Some (claimed_event tempo n))"
proof -
  obtain t nm oc fr d where n: "n = (t, nm, oc, fr, d)" by (cases n) auto
  from assms n obtain off where off: "note_to_midi nm = Some off"
    by (auto simp: emittable_def)
  have pos: "(0::real) < max (1 / 8) (min (d * of_int tempo / 60) 16)"
    by (simp add: max_def)
  from assms n have tb: "0 \<le> t * of_int tempo / 60" by (simp add: emittable_def)
  from assms n have "1 \<le> oc" "oc \<le> 7" by (simp_all add: in_octave_range_def)
  then show ?thesis
    using off pos tb unfolding n note_event_def claimed_event_def
    by (simp add: Let_def)
qed

lemma note_to_midi_C: "note_to_midi ''C'' = Some 0"
  by (simp add: note_to_midi_def)

lemma note_to_midi_B: "note_to_midi ''B'' = Some 11"
  by (simp add: note_to_midi_def)

text \<open>
  Claim C7 as stated: every input note with an octave between 1 and 7 is encoded. It fails
  for a note with a negative onset: the source adds a note only if \<open>time_beat >= 0\<close>, and
  the note below, C4 at -1 s, produces no event.
\<close>

theorem midi_events_negative_onset:
  "(1::int) \<le> 4 \<and> (4::int) \<le> 7 \<and> note_to_midi ''C'' = Some 0 \<and>
   notes_to_midi True True 120 [(-1, ''C'', 4, 26163/100, 1/2)] = Inr []"
  by (simp add: notes_to_midi_def note_event_def note_to_midi_C)

text \<open>
  Claim C7, amended: when every note with an octave between 1 and 7 has one of the twelve
  pitch-class names and an onset that is not negative in beats, \<open>notes_to_midi\<close> writes, in
  order, one event for each such note, with the note number \<open>(octave + 1) * 12\<close> plus the
  pitch-class offset clamped into 24..108 and the duration \<open>duration * tempo / 60\<close>
  clamped into 0.125..16, and no event for a note whose octave is outside 1..7.
\<close>

theorem midi_events_emitted:
  assumes "\<forall>n\<in>set ns. in_octave_range n \<longrightarrow> emittable tempo n"
  shows "notes_to_midi True True tempo ns =
           Inr (map (claimed_event tempo) (filter in_octave_range ns))"
proof -
  from assms have "midi_events tempo ns = Inr (map (claimed_event tempo) (filter in_octave_range ns))"
  proof (induction ns)
    case Nil
    show ?case by simp
  next
    case (Cons n ns)
    then have ih: "midi_events tempo ns = Inr (map (claimed_event tempo) (filter in_octave_range ns))"
      by simp
    show ?case
    proof (cases "in_octave_range n")
      case True
      with Cons.prems have "emittable tempo n" by simp
      with True have "note_event tempo n = Inr (Some (claimed_event tempo n))"
        by (rule note_event_emitted)
      with ih True show ?thesis by simp
    next
      case False
      then have "note_event tempo n = Inr None" by (rule note_event_skipped)
      with ih False show ?thesis by simp
    qed
  qed
  then show ?thesis by (simp add: notes_to_midi_def)
qed

theorem midi_events_emitted_witness:
  "notes_to_midi True True 120 [(1, ''C'', 4, 26163/100, 1/2), (2, ''B'', 8, 7902, 1/2),
       (3, ''B'', 7, 3951, 100)] =
     Inr [\<lparr>midi_note = 60, time_beat = 2, duration_beat = 1\<rparr>,
          \<lparr>midi_note = 107, time_beat = 6, duration_beat = 16\<rparr>]"
  using midi_events_emitted[of "[(1, ''C'', 4, 26163/100, 1/2), (2, ''B'', 8, 7902, 1/2),
       (3, ''B'', 7, 3951, 100)]" 120]
  by (simp add: in_octave_range_def emittable_def claimed_event_def note_to_midi_C note_to_midi_B)

subsection \<open>The peak normalisation\<close>

lemma foldl_max_Max: "foldl max x xs = Max (set (x # xs))"
  for x :: real
proof (induction xs arbitrary: x)
  case Nil
  show ?case by simp
next
  case (Cons y ys)
  have "foldl max x (y # ys) = Max (set (max x y # ys))" using Cons.IH by simp
  also have "\<dots> = Max (set (x # y # ys))"
    by (cases "ys = []") (simp_all add: Max_insert max.assoc)
  finally show ?case .
qed

lemma np_max_Max: "xs \<noteq> [] \<Longrightarrow> np_max xs = Inr (Max (set xs))"
  by (cases xs) (simp_all add: np_max_def foldl_max_Max del: set_simps)

lemma Max_abs_nonneg:
  fixes y :: "real list"
  assumes "y \<noteq> []"
  shows "0 \<le> Max (set (map abs y))"
proof -
  from assms obtain v where "v \<in> set y" by (cases y) auto
  then have "\<bar>v\<bar> \<le> Max (set (map abs y))" by (intro Max_ge) simp_all
  then show ?thesis by linarith
qed

lemma Max_abs_scaled:
  fixes y :: "real list"
  assumes "y \<noteq> []" and "0 < m"
  shows "Max (set (map abs (map (\<lambda>v. v / m) y))) = Max (set (map abs y)) / m"
proof -
  have "mono (\<lambda>a. a / m)" using assms(2) by (simp add: mono_def divide_right_mono)
  then have "Max (set (map abs y)) / m = Max ((\<lambda>a. a / m) ` set (map abs y))"
    using assms(1) by (intro mono_Max_commute) simp_all
  also have "(\<lambda>a. a / m) ` set (map abs y) = set (map abs (map (\<lambda>v. v / m) y))"
    using assms(2) by (auto simp: image_iff abs_divide intro!: bexI)
  finally show ?thesis by simp
qed

text \<open>
  Claim C10. On a signal that is not empty: if the largest absolute sample is 0 the signal
  is returned as it is, all zeros, with no division; otherwise the returned signal has
  the largest absolute sample 1.
\<close>

theorem peak_normalize_guard:
  assumes "y \<noteq> []"
  shows "(Max (set (map abs y)) = 0 \<longrightarrow> peak_normalize y = Inr y \<and> (\<forall>v\<in>set y. v = 0)) \<and>
         (Max (set (map abs y)) \<noteq> 0 \<longrightarrow>
            (\<exists>z. peak_normalize y = Inr z \<and> length z = length y \<and>
                 Max (set (map abs z)) = 1))"
proof (intro conjI impI)
  assume z: "Max (set (map abs y)) = 0"
  with assms show "peak_normalize y = Inr y"
    by (simp add: peak_normalize_def np_max_Max)
  show "\<forall>v\<in>set y. v = 0"
  proof
    fix v assume "v \<in> set y"
    then have "\<bar>v\<bar> \<le> Max (set (map abs y))" by (intro Max_ge) simp_all
    with z show "v = 0" by simp
  qed
next
  assume nz: "Max (set (map abs y)) \<noteq> 0"
  with Max_abs_nonneg[OF assms] have pos: "0 < Max (set (map abs y))" by linarith
  let ?z = "map (\<lambda>v. v / Max (set (map abs y))) y"
  have "peak_normalize y = Inr ?z"
    using assms pos by (simp add: peak_normalize_def np_max_Max)
  moreover have "Max (set (map abs ?z)) = 1"
    using Max_abs_scaled[OF assms pos] pos by simp
  ultimately show "\<exists>z. peak_normalize y = Inr z \<and> length z = length y \<and>
      Max (set (map abs z)) = 1"
    by (intro exI[of _ ?z]) simp
qed

theorem peak_normalize_guard_witness:
  "peak_normalize [0, 0] = Inr [0, 0] \<and> peak_normalize [1, -2] = Inr [1/2, -1]"
  using peak_normalize_guard[of "[0, 0]"] peak_normalize_guard[of "[1, -2]"]
  by (simp add: peak_normalize_def np_max_def)

subsection \<open>The octave range of the extracted notes\<close>

lemma resolve_pitch_octave:
  assumes "resolve_pitch efmin efmax f = Some (nm, oc, fr)"
  shows "1 \<le> oc \<and> oc \<le> 7 \<and> (fr = f \<or> fr = f * 2) \<and>
         frequency_to_note fr = (Some nm, Some oc)"
  using assms unfolding resolve_pitch_def Let_def
  by (auto split: prod.splits option.splits if_splits)

lemma close_note_range:
  assumes "\<forall>n\<in>set ns. in_octave_range n" and "in_octave_range cn"
  shows "\<forall>n\<in>set (close_note time (cn, idx, start) ns). in_octave_range n"
  using assms by (auto simp: close_note_def in_octave_range_def Let_def split: prod.splits)

lemma seg_step_inv:
  assumes "seg_inv st"
  shows "seg_inv (seg_step efmin efmax st ifr)"
proof -
  obtain i fr where ifr: "ifr = (i, fr)" by (cases ifr)
  have closed: "seg_inv \<lparr>current = None, notes_acc = close_note (f_time fr) cur (notes_acc st)\<rparr>"
    if "current st = Some cur" for cur
  proof -
    obtain cn idx start where cur: "cur = (cn, idx, start)" by (cases cur)
    with assms that have "in_octave_range cn" "\<forall>n\<in>set (notes_acc st). in_octave_range n"
      by (simp_all add: seg_inv_def)
    then show ?thesis using close_note_range[of "notes_acc st" cn] cur by (simp add: seg_inv_def)
  qed
  have opened: "seg_inv \<lparr>current = Some ((f_time fr, nm, oc, fq, 0), i, f_time fr),
                            notes_acc = (case current st of
                                  Some cur \<Rightarrow> close_note (f_time fr) cur (notes_acc st)
                                | None \<Rightarrow> notes_acc st)\<rparr>"
    if "resolve_pitch efmin efmax f = Some (nm, oc, fq)" for f nm oc fq
  proof -
    from that have r: "in_octave_range (f_time fr, nm, oc, fq, 0)"
      using resolve_pitch_octave[of efmin efmax f nm oc fq] by (simp add: in_octave_range_def)
    show ?thesis
    proof (cases "current st")
      case None
      with assms r show ?thesis by (simp add: seg_inv_def)
    next
      case (Some cur)
      from closed[OF Some] r Some show ?thesis by (simp add: seg_inv_def)
    qed
  qed
  show ?thesis
  proof (cases "valid_frequency efmin efmax fr")
    case None
    show ?thesis
    proof (cases "current st")
      case None
      with \<open>valid_frequency efmin efmax fr = None\<close> assms show ?thesis
        by (simp add: ifr seg_step_def)
    next
      case (Some cur)
      with \<open>valid_frequency efmin efmax fr = None\<close> closed[OF Some] show ?thesis
        by (simp add: ifr seg_step_def)
    qed
  next
    case (Some freq)
    show ?thesis
    proof (cases "resolve_pitch efmin efmax freq")
      case None
      with Some assms show ?thesis by (simp add: ifr seg_step_def)
    next
      case (Some r)
      obtain nm oc fq where r: "r = (nm, oc, fq)" by (cases r)
      from opened[of freq nm oc fq] Some r assms \<open>valid_frequency efmin efmax fr = Some freq\<close>
      show ?thesis by (simp add: ifr seg_step_def Let_def)
    qed
  qed
qed

lemma foldl_seg_step_inv:
  "seg_inv st \<Longrightarrow> seg_inv (foldl (seg_step efmin efmax) st xs)"
  by (induction xs arbitrary: st) (simp_all add: seg_step_inv)

lemma seg_loop_inv: "seg_inv (seg_loop efmin efmax frames)"
  unfolding seg_loop_def by (rule foldl_seg_step_inv) (simp add: seg_inv_def)

lemma finish_last_range:
  assumes "seg_inv st"
  shows "\<forall>n\<in>set (finish_last frames st). in_octave_range n"
proof (cases "current st")
  case None
  with assms show ?thesis by (simp add: finish_last_def seg_inv_def)
next
  case (Some cur)
  obtain cn idx start where cur: "cur = (cn, idx, start)" by (cases cur)
  with assms Some have "in_octave_range cn" "\<forall>n\<in>set (notes_acc st). in_octave_range n"
    by (simp_all add: seg_inv_def)
  then show ?thesis
    using close_note_range[of "notes_acc st" cn] Some cur
    by (simp add: finish_last_def Let_def)
qed

lemma onset_filter_step_range:
  assumes "\<forall>n\<in>set fl. in_octave_range n" and "in_octave_range x"
  shows "\<forall>n\<in>set (onset_filter_step fl x). in_octave_range n"
proof (cases "fl = []")
  case True
  with assms show ?thesis by (simp add: onset_filter_step_def)
next
  case False
  then have l: "in_octave_range (last fl)" using assms(1) by simp
  have b: "\<forall>n\<in>set (butlast fl). in_octave_range n"
    using assms(1) by (meson in_set_butlastD)
  obtain pt pn po pf pd where p: "last fl = (pt, pn, po, pf, pd)" by (cases "last fl")
  obtain ct cn co cf cd where c: "x = (ct, cn, co, cf, cd)" by (cases x)
  from l p have e: "in_octave_range (pt, pn, po, pf, ct + cd - pt)"
    by (simp add: in_octave_range_def)
  consider "onset_filter_step fl x = fl @ [x]"
    | "onset_filter_step fl x = butlast fl @ [(pt, pn, po, pf, ct + cd - pt)]"
    | "onset_filter_step fl x = fl"
    using False by (simp add: onset_filter_step_def p c Let_def) meson
  then show ?thesis
  proof cases
    case 1
    with assms show ?thesis by simp
  next
    case 2
    with b e show ?thesis by simp
  next
    case 3
    with assms show ?thesis by simp
  qed
qed

lemma foldl_onset_filter_range:
  assumes "\<forall>n\<in>set fl. in_octave_range n" and "\<forall>n\<in>set ns. in_octave_range n"
  shows "\<forall>n\<in>set (foldl onset_filter_step fl ns). in_octave_range n"
  using assms
proof (induction ns arbitrary: fl)
  case Nil
  then show ?case by simp
next
  case (Cons x ns)
  from Cons.prems(2) have x: "in_octave_range x" and ns: "\<forall>n\<in>set ns. in_octave_range n"
    by simp_all
  have "\<forall>n\<in>set (onset_filter_step fl x). in_octave_range n"
    using Cons.prems(1) x by (rule onset_filter_step_range)
  then have "\<forall>n\<in>set (foldl onset_filter_step (onset_filter_step fl x) ns). in_octave_range n"
    using ns by (rule Cons.IH)
  then show ?case by simp
qed

lemma quantize_note_range: "in_octave_range n \<Longrightarrow> in_octave_range (quantize_note n)"
  by (cases n) (simp add: quantize_note_def in_octave_range_def)

subsection \<open>The segmenter on two segments of C4\<close>

lemma resolve_pitch_C4:
  "resolve_pitch 60 2000 (26163/100) = Some (''C'', 4, 26163/100)"
  by (simp add: resolve_pitch_def frequency_to_note_C4)

lemma is_continuation_C4:
  "is_continuation (t, ''C'', 4, 26163/100, d) ''C'' 4 (26163/100)"
  by (simp add: is_continuation_def)

lemma valid_frequency_c4: "valid_frequency 60 2000 (c4_frame t) = Some (26163/100)"
  by (simp add: valid_frequency_def c4_frame_def)

lemma valid_frequency_unvoiced: "valid_frequency efmin efmax (unvoiced_frame t) = None"
  by (simp add: valid_frequency_def unvoiced_frame_def)

lemma f_time_c4: "f_time (c4_frame t) = t"
  by (simp add: c4_frame_def)

lemma f_time_unvoiced: "f_time (unvoiced_frame t) = t"
  by (simp add: unvoiced_frame_def)

lemma seg_step_c4_idle:
  assumes "current st = None"
  shows "seg_step 60 2000 st (i, c4_frame t) =
           \<lparr>current = Some ((t, ''C'', 4, 26163/100, 0), i, t), notes_acc = notes_acc st\<rparr>"
  using assms
  by (simp add: seg_step_def valid_frequency_c4 resolve_pitch_C4 Let_def f_time_c4)

lemma seg_step_c4_hold:
  assumes "current st = Some ((t0, ''C'', 4, 26163/100, d), i0, s0)"
  shows "seg_step 60 2000 st (i, c4_frame t) = st"
  using assms
  by (simp add: seg_step_def valid_frequency_c4 resolve_pitch_C4 is_continuation_C4 Let_def)

lemma seg_step_unvoiced_hold:
  assumes "current st = Some cur"
  shows "seg_step efmin efmax st (i, unvoiced_frame t) =
           \<lparr>current = None, notes_acc = close_note t cur (notes_acc st)\<rparr>"
  using assms
  by (simp add: seg_step_def valid_frequency_unvoiced Let_def f_time_unvoiced)

lemma seg_step_unvoiced_idle:
  assumes "current st = None"
  shows "seg_step efmin efmax st (i, unvoiced_frame t) = st"
  using assms by (simp add: seg_step_def valid_frequency_unvoiced Let_def)

lemma foldl_c4_hold:
  assumes "current st = Some ((t0, ''C'', 4, 26163/100, d), i0, s0)"
  shows "foldl (seg_step 60 2000) st (map (\<lambda>i. (i, c4_frame (tm i))) js) = st"
  using assms by (induction js) (simp_all add: seg_step_c4_hold)

lemma foldl_unvoiced_idle:
  assumes "current st = None"
  shows "foldl (seg_step efmin efmax) st (map (\<lambda>i. (i, unvoiced_frame (tm i))) js) = st"
  using assms by (induction js) (simp_all add: seg_step_unvoiced_idle)

lemma foldl_c4_segment:
  assumes "current st = None" and "0 < n"
  shows "foldl (seg_step 60 2000) st (map (\<lambda>i. (i, c4_frame (tm i))) [a..<a + n]) =
           \<lparr>current = Some ((tm a, ''C'', 4, 26163/100, 0), a, tm a), notes_acc = notes_acc st\<rparr>"
proof -
  from assms(2) have "[a..<a + n] = a # [Suc a..<a + n]" by (simp add: upt_conv_Cons)
  then show ?thesis
    using assms(1) by (simp add: seg_step_c4_idle foldl_c4_hold)
qed

lemma foldl_unvoiced_gap:
  assumes "current st = Some cur" and "0 < n"
  shows "foldl (seg_step efmin efmax) st (map (\<lambda>i. (i, unvoiced_frame (tm i))) [a..<a + n]) =
           \<lparr>current = None, notes_acc = close_note (tm a) cur (notes_acc st)\<rparr>"
proof -
  from assms(2) have "[a..<a + n] = a # [Suc a..<a + n]" by (simp add: upt_conv_Cons)
  then show ?thesis
    using assms(1) by (simp add: seg_step_unvoiced_hold foldl_unvoiced_idle)
qed

lemma enumerate_two_c4_segments:
  "enumerate 0 (two_c4_segments h n1 g n2) =
     map (\<lambda>i. (i, c4_frame (real i * h))) [0..<0 + n1] @
     map (\<lambda>i. (i, unvoiced_frame (real i * h))) [n1..<n1 + g] @
     map (\<lambda>i. (i, c4_frame (real i * h))) [n1 + g..<n1 + g + n2]"
  unfolding two_c4_segments_def
  by (simp add: enumerate_append_eq enumerate_map_upt del: upt_Suc)

lemma seg_loop_two_c4_segments:
  assumes "0 < n1" "0 < g" "0 < n2" and "min_note_duration \<le> real n1 * h"
  shows "seg_loop 60 2000 (two_c4_segments h n1 g n2) =
           \<lparr>current = Some ((real (n1 + g) * h, ''C'', 4, 26163/100, 0), n1 + g, real (n1 + g) * h),
            notes_acc = [(0, ''C'', 4, 26163/100, real n1 * h)]\<rparr>"
proof -
  let ?s0 = "\<lparr>current = None, notes_acc = []\<rparr>"
  let ?s1 = "\<lparr>current = Some ((real 0 * h, ''C'', 4, 26163/100, 0), 0, real 0 * h),
              notes_acc = []\<rparr>"
  let ?s2 = "\<lparr>current = None, notes_acc = [(0, ''C'', 4, 26163/100, real n1 * h)]\<rparr>"
  have 1: "foldl (seg_step 60 2000) ?s0 (map (\<lambda>i. (i, c4_frame (real i * h))) [0..<0 + n1]) = ?s1"
    using foldl_c4_segment[of ?s0 n1 "\<lambda>i. real i * h" 0] assms(1) by simp
  have 2: "foldl (seg_step 60 2000) ?s1 (map (\<lambda>i. (i, unvoiced_frame (real i * h))) [n1..<n1 + g]) = ?s2"
    using foldl_unvoiced_gap[of ?s1 _ g 60 2000 "\<lambda>i. real i * h" n1] assms(2,4)
    by (simp add: close_note_def)
  have 3: "foldl (seg_step 60 2000) ?s2
             (map (\<lambda>i. (i, c4_frame (real i * h))) [n1 + g..<n1 + g + n2]) =
           \<lparr>current = Some ((real (n1 + g) * h, ''C'', 4, 26163/100, 0), n1 + g, real (n1 + g) * h),
            notes_acc = [(0, ''C'', 4, 26163/100, real n1 * h)]\<rparr>"
    using foldl_c4_segment[of ?s2 n2 "\<lambda>i. real i * h" "n1 + g"] assms(3) by simp
  show ?thesis
    unfolding seg_loop_def enumerate_two_c4_segments foldl_append 1 2 3 ..
qed

lemma times_two_c4_segments:
  "map f_time (two_c4_segments h n1 g n2) = map (\<lambda>i. real i * h) [0..<n1 + g + n2]"
proof -
  have "[0..<n1 + g + n2] = [0..<n1] @ [n1..<n1 + g] @ [n1 + g..<n1 + g + n2]"
    by (metis le_add1 upt_add_eq_append add.assoc add_0)
  then show ?thesis
    by (simp add: two_c4_segments_def c4_frame_def unvoiced_frame_def comp_def)
qed

lemma length_two_c4_segments: "length (two_c4_segments h n1 g n2) = n1 + g + n2"
  by (simp add: two_c4_segments_def)

lemma finish_last_two_c4_segments:
  assumes "0 < n1" "0 < g" "0 < n2"
    and "min_note_duration \<le> real n1 * h" and "min_note_duration \<le> real n2 * h"
  shows "finish_last (two_c4_segments h n1 g n2) (seg_loop 60 2000 (two_c4_segments h n1 g n2)) =
           [(0, ''C'', 4, 26163/100, real n1 * h),
            (real (n1 + g) * h, ''C'', 4, 26163/100, real n2 * h)]"
proof -
  let ?F = "two_c4_segments h n1 g n2"
  let ?N = "n1 + g + n2"
  have len: "length ?F = ?N" by (rule length_two_c4_segments)
  have ne: "?F \<noteq> []" using assms(1) len by auto
  have "f_time (last ?F) = last (map f_time ?F)" using ne by (simp add: last_map)
  also have "\<dots> = real (?N - 1) * h"
    using assms(1) unfolding times_two_c4_segments by (simp add: last_map del: upt_Suc)
  finally have l: "f_time (last ?F) = real (?N - 1) * h" .
  have nth: "f_time (?F ! k) = real k * h" if "k < ?N" for k
  proof -
    have "f_time (?F ! k) = map f_time ?F ! k" using that len by simp
    also have "\<dots> = real k * h" using that unfolding times_two_c4_segments by simp
    finally show ?thesis .
  qed
  have gt: "1 < ?N" using assms(1,2) by simp
  have "f_time (?F ! 0) = real 0 * h" and "f_time (?F ! 1) = real 1 * h"
    using gt by (simp_all only: nth)
  then have ft: "f_time (last ?F) + (f_time (?F ! 1) - f_time (?F ! 0)) = real ?N * h"
    using gt by (simp add: l algebra_simps of_nat_diff)
  have d: "real ?N * h - real (n1 + g) * h = real n2 * h" by (simp add: algebra_simps)
  from ft have ft': "f_time (last ?F) + (f_time (?F ! Suc 0) - f_time (?F ! 0)) = real ?N * h"
    by simp
  show ?thesis
    unfolding seg_loop_two_c4_segments[OF assms(1-4)] finish_last_def
    using gt assms(1,5) by (simp add: len ft' close_note_def d Let_def del: of_nat_add)
qed

lemma onset_filter_same_pitch_pair:
  "onset_filter [(t1, nm, oc, f1, d1), (t2, nm, oc, f2, d2)] =
     (if min_onset_gap \<le> t2 - t1 then [(t1, nm, oc, f1, d1), (t2, nm, oc, f2, d2)]
      else [(t1, nm, oc, f1, t2 + d2 - t1)])"
  by (simp add: onset_filter_def onset_filter_step_def Let_def)

lemma extract_two_c4_segments:
  assumes "0 < n1" "0 < g" "0 < n2"
    and "min_note_duration \<le> real n1 * h" and "min_note_duration \<le> real n2 * h"
  shows "extract_notes_from_piano_audio (55/2) 4186 (two_c4_segments h n1 g n2) =
           [(0, ''C'', 4, 26163/100, quantize_duration (real n1 * h)),
            (real (n1 + g) * h, ''C'', 4, 26163/100, quantize_duration (real n2 * h))]"
proof -
  have ef: "effective_fmin (55/2) = 60" "effective_fmax 4186 = 2000"
    by (simp_all add: effective_fmin_def effective_fmax_def)
  have "0 < real n1 * h" using assms(4) by (simp add: min_note_duration_def)
  moreover have "0 < real n1" using assms(1) by simp
  ultimately have h: "0 < h" by (rule zero_less_mult_pos)
  have "real n1 * h \<le> real (n1 + g) * h" using h by (simp add: algebra_simps)
  with assms(4) have gap: "min_onset_gap \<le> real (n1 + g) * h - 0"
    by (simp add: min_note_duration_def min_onset_gap_def)
  then have nonneg: "(0::real) \<le> real (n1 + g) * h" by (simp add: min_onset_gap_def)
  have sorted: "sort_key fst [(0::real, ''C'', 4::int, 26163/100::real, real n1 * h),
            (real (n1 + g) * h, ''C'', 4, 26163/100, real n2 * h)] =
          [(0, ''C'', 4, 26163/100, real n1 * h),
            (real (n1 + g) * h, ''C'', 4, 26163/100, real n2 * h)]"
    using nonneg by simp
  show ?thesis
    unfolding extract_notes_from_piano_audio_def Let_def ef
      finish_last_two_c4_segments[OF assms] sorted onset_filter_same_pitch_pair
    using gap by (simp add: quantize_note_def)
qed

lemma quantize_duration_tenth: "quantize_duration (1/10) = 1/8"
  by (simp add: quantize_duration_nearest nearest_standard_def)


text \<open>
  Claim C6. Every note that \<open>extract_notes_from_piano_audio\<close> returns has an octave
  between 1 and 7; the pitch of a frame is kept as it is, or after doubling the frequency,
  only when its octave is between 1 and 7, and the frame is dropped otherwise.
\<close>

theorem extracted_octave_range:
  "(\<forall>n\<in>set (extract_notes_from_piano_audio fmin fmax frames).
      case n of (_, _, octave, _, _) \<Rightarrow> 1 \<le> octave \<and> octave \<le> 7) \<and>
   (\<forall>nm oc fr. resolve_pitch efmin efmax f = Some (nm, oc, fr) \<longrightarrow>
      1 \<le> oc \<and> oc \<le> 7 \<and> (fr = f \<or> fr = f * 2) \<and>
      frequency_to_note fr = (Some nm, Some oc))"
proof (rule conjI)
  let ?ns = "finish_last frames (seg_loop (effective_fmin fmin) (effective_fmax fmax) frames)"
  have "\<forall>n\<in>set ?ns. in_octave_range n"
    by (rule finish_last_range) (rule seg_loop_inv)
  then have "\<forall>n\<in>set (sort_key fst ?ns). in_octave_range n" by simp
  then have "\<forall>n\<in>set (onset_filter (sort_key fst ?ns)). in_octave_range n"
    unfolding onset_filter_def by (intro foldl_onset_filter_range) simp_all
  then have "\<forall>n\<in>set (extract_notes_from_piano_audio fmin fmax frames). in_octave_range n"
    by (simp add: extract_notes_from_piano_audio_def Let_def quantize_note_range)
  then show "\<forall>n\<in>set (extract_notes_from_piano_audio fmin fmax frames).
      case n of (_, _, octave, _, _) \<Rightarrow> 1 \<le> octave \<and> octave \<le> 7"
    by (simp add: in_octave_range_def)
next
  show "\<forall>nm oc fr. resolve_pitch efmin efmax f = Some (nm, oc, fr) \<longrightarrow>
      1 \<le> oc \<and> oc \<le> 7 \<and> (fr = f \<or> fr = f * 2) \<and>
      frequency_to_note fr = (Some nm, Some oc)"
    using resolve_pitch_octave by blast
qed


theorem extracted_octave_range_witness:
  "(0, ''C'', 4, 26163/100, 1/8) \<in>
     set (extract_notes_from_piano_audio (55/2) 4186 (two_c4_segments (1/20) 2 1 2)) \<and>
   resolve_pitch 60 2000 (26163/100) = Some (''C'', 4, 26163/100) \<and>
   (1::int) \<le> 4 \<and> (4::int) \<le> 7"
proof -
  have m: "(0, ''C'', 4, 26163/100, 1/8) \<in>
     set (extract_notes_from_piano_audio (55/2) 4186 (two_c4_segments (1/20) 2 1 2))"
    using extract_two_c4_segments[of 2 1 2 "1/20"]
    by (simp add: min_note_duration_def quantize_duration_tenth)
  from extracted_octave_range[of "55/2" 4186 "two_c4_segments (1/20) 2 1 2" 60 2000 "26163/100"] m
  have "case (0::real, ''C'', 4::int, 26163/100::real, 1/8::real) of
          (_, _, octave, _, _) \<Rightarrow> 1 \<le> octave \<and> octave \<le> 7"
    by blast
  with m resolve_pitch_C4 show ?thesis by simp
qed





subsection \<open>The intermediate MusicXML file\<close>

lemma musicxml_to_pdf_keeps:
  assumes "files x \<noteq> None"
  shows "snd (musicxml_to_pdf e x pdfp ms files) x \<noteq> None"
  using assms unfolding musicxml_to_pdf_def Let_def
  by (auto split: run_result.splits option.splits)

lemma workflow_result:
  "midi_to_pdf_workflow e m p ms files =
     (if \<not> MUSIC21_AVAILABLE e then (Inl ImportError, files)
      else if \<not> parse_ok e then (Inl (Exception ''Error in MIDI to PDF workflow''), files)
      else case musicxml_write e of
             None \<Rightarrow> (Inl (Exception ''Error in MIDI to PDF workflow''), files)
           | Some sz \<Rightarrow>
               (let r = musicxml_to_pdf e (musicxml_path_of e p) p ms
                          (files(musicxml_path_of e p \<mapsto> sz))
                in if isl (fst r) then (Inl (Exception ''Error in MIDI to PDF workflow''), snd r)
                   else (Inr True,
                         if snd r (musicxml_path_of e p) \<noteq> None \<and> remove_ok e
                         then (snd r)(musicxml_path_of e p := None) else snd r)))"
  unfolding midi_to_pdf_workflow_def Let_def
  by (auto split: option.splits prod.splits sum.splits)

lemma default_musescore_path_neq:
  "default_musescore_path \<noteq> ''out/song_sheet_music.musicxml''"
  "default_musescore_path \<noteq> ''out/song_sheet_music.pdf''"
  by (simp_all add: default_musescore_path_def)

text \<open>
  Claim C5 as stated: on every exit path of \<open>midi_to_pdf_workflow\<close> the intermediate
  MusicXML file has been removed. It fails where MuseScore is not installed:
  \<open>musicxml_to_pdf\<close> raises, the workflow raises, and the file written before is still
  there. The source removes the file only after a successful conversion, with no
  \<open>finally\<close>.
\<close>

theorem workflow_leaves_musicxml:
  "midi_to_pdf_workflow example_env ''out/song_piano.mid'' ''out/song_sheet_music.pdf'' None
      no_files =
     (Inl (Exception ''Error in MIDI to PDF workflow''),
      no_files(''out/song_sheet_music.musicxml'' \<mapsto> 900))"
  by (simp add: no_files_def midi_to_pdf_workflow_def musicxml_to_pdf_def example_env_def
      default_musescore_path_neq)

text \<open>
  Claim C5, amended: when \<open>midi_to_pdf_workflow\<close> returns and \<open>os.remove\<close> succeeds, the
  MusicXML file has been removed; when it raises after the MusicXML file was written,
  the file is left in place.
\<close>

theorem workflow_cleanup:
  "(fst (midi_to_pdf_workflow e m p ms files) = Inr r \<longrightarrow> remove_ok e \<longrightarrow>
      snd (midi_to_pdf_workflow e m p ms files) (musicxml_path_of e p) = None) \<and>
   (fst (midi_to_pdf_workflow e m p ms files) = Inl err \<longrightarrow>
      MUSIC21_AVAILABLE e \<longrightarrow> parse_ok e \<longrightarrow> musicxml_write e \<noteq> None \<longrightarrow>
      snd (midi_to_pdf_workflow e m p ms files) (musicxml_path_of e p) \<noteq> None)"
proof (intro conjI impI)
  assume "fst (midi_to_pdf_workflow e m p ms files) = Inr r" and "remove_ok e"
  then show "snd (midi_to_pdf_workflow e m p ms files) (musicxml_path_of e p) = None"
    unfolding workflow_result Let_def
    by (simp split: if_splits option.splits)
next
  assume a: "fst (midi_to_pdf_workflow e m p ms files) = Inl err"
    "MUSIC21_AVAILABLE e" "parse_ok e" "musicxml_write e \<noteq> None"
  then obtain sz where sz: "musicxml_write e = Some sz" by auto
  let ?x = "musicxml_path_of e p"
  have "snd (musicxml_to_pdf e ?x p ms (files(?x \<mapsto> sz))) ?x \<noteq> None"
    by (rule musicxml_to_pdf_keeps) simp
  with a sz show "snd (midi_to_pdf_workflow e m p ms files) (musicxml_path_of e p) \<noteq> None"
    unfolding workflow_result Let_def
    by (simp split: if_splits)
qed

theorem workflow_cleanup_witness:
  "snd (midi_to_pdf_workflow example_env ''out/song_piano.mid'' ''out/song_sheet_music.pdf'' None
          (no_files(default_musescore_path \<mapsto> 1))) ''out/song_sheet_music.musicxml'' = None \<and>
   snd (midi_to_pdf_workflow example_env ''out/song_piano.mid'' ''out/song_sheet_music.pdf'' None
          no_files) ''out/song_sheet_music.musicxml'' \<noteq> None"
proof -
  have ok: "fst (midi_to_pdf_workflow example_env ''out/song_piano.mid''
                  ''out/song_sheet_music.pdf'' None (no_files(default_musescore_path \<mapsto> 1))) = Inr True"
    by (simp add: no_files_def midi_to_pdf_workflow_def musicxml_to_pdf_def example_env_def
        default_musescore_path_neq)
  have ko: "fst (midi_to_pdf_workflow example_env ''out/song_piano.mid''
                  ''out/song_sheet_music.pdf'' None no_files) =
              Inl (Exception ''Error in MIDI to PDF workflow'')"
    by (simp add: no_files_def midi_to_pdf_workflow_def musicxml_to_pdf_def example_env_def
        default_musescore_path_neq)
  have env: "remove_ok example_env" "MUSIC21_AVAILABLE example_env" "parse_ok example_env"
    "musicxml_write example_env \<noteq> None"
    "musicxml_path_of example_env ''out/song_sheet_music.pdf'' = ''out/song_sheet_music.musicxml''"
    by (simp_all add: example_env_def)
  show ?thesis
    using workflow_cleanup[of example_env "''out/song_piano.mid''" "''out/song_sheet_music.pdf''"
        None "(no_files(default_musescore_path \<mapsto> 1))" True]
      workflow_cleanup[of example_env "''out/song_piano.mid''" "''out/song_sheet_music.pdf''"
        None no_files _ "Exception ''Error in MIDI to PDF workflow''"]
      ok ko env
    by simp
qed


subsection \<open>The fallback chain of the notation stage\<close>

lemma generate_simple_fails:
  "isl (fst (generate_simple_sheet_pdf rl c out files)) \<longleftrightarrow> \<not> (rl \<and> c \<noteq> None)"
  by (auto simp: generate_simple_sheet_pdf_def split: option.splits)

lemma generate_sheet_fails:
  "isl (fst (generate_sheet_music_pdf e out files)) \<longleftrightarrow>
     \<not> (MUSIC21_AVAILABLE e \<and> music21_pdf_write e \<noteq> None \<or>
        REPORTLAB_AVAILABLE e \<and> canvas_in_fallback e \<noteq> None)"
  unfolding generate_sheet_music_pdf_def
  by (auto simp: generate_simple_fails split: option.splits)

lemma notation_stage_fails:
  "isl (fst (notation_stage e p files)) \<longleftrightarrow>
     isl (fst (midi_to_pdf_workflow e (midi_path p) (pdf_path p) None files)) \<and>
     \<not> (MUSIC21_AVAILABLE e \<and> music21_pdf_write e \<noteq> None \<or>
        REPORTLAB_AVAILABLE e \<and> (canvas_in_fallback e \<noteq> None \<or> canvas_final e \<noteq> None))"
proof -
  obtain r1 f1 where w: "midi_to_pdf_workflow e (midi_path p) (pdf_path p) None files = (r1, f1)"
    by (cases "midi_to_pdf_workflow e (midi_path p) (pdf_path p) None files")
  obtain r2 f2 where g: "generate_sheet_music_pdf e (pdf_path p) f1 = (r2, f2)"
    by (cases "generate_sheet_music_pdf e (pdf_path p) f1")
  have g': "isl r2 \<longleftrightarrow>
     \<not> (MUSIC21_AVAILABLE e \<and> music21_pdf_write e \<noteq> None \<or>
        REPORTLAB_AVAILABLE e \<and> canvas_in_fallback e \<noteq> None)"
    using generate_sheet_fails[of e "pdf_path p" f1] g by simp
  show ?thesis
  proof (cases r1)
    case (Inr ok)
    with w show ?thesis by (simp add: notation_stage_def)
  next
    case (Inl err)
    show ?thesis
    proof (cases r2)
      case (Inr ok2)
      with w g Inl g' show ?thesis by (auto simp: notation_stage_def)
    next
      case (Inl err2)
      with w g \<open>r1 = Inl err\<close> g' show ?thesis
        using generate_simple_fails[of "REPORTLAB_AVAILABLE e" "canvas_final e" "pdf_path p" f2]
        by (auto simp: notation_stage_def)
    qed
  qed
qed

lemma example_extract: "extract_piano_from_audio example_env = Inr [1/2, -1]"
  by (simp add: extract_piano_from_audio_def example_env_def peak_normalize_def np_max_def)

lemma example_notes:
  "extract_notes_from_piano_audio (55/2) 4186 (two_c4_segments (1/100) 10 3 10) =
     [(0, ''C'', 4, 26163/100, 1/8), (13/100, ''C'', 4, 26163/100, 1/8)]"
  using extract_two_c4_segments[of 10 3 10 "1/100"]
  by (simp add: min_note_duration_def quantize_duration_tenth)

lemma example_midi:
  "notes_to_midi True True 120 [(0, ''C'', 4, 26163/100, 1/8), (13/100, ''C'', 4, 26163/100, 1/8)] =
     Inr [\<lparr>midi_note = 60, time_beat = 0, duration_beat = 1/4\<rparr>,
          \<lparr>midi_note = 60, time_beat = 13/50, duration_beat = 1/4\<rparr>]"
  by (simp add: notes_to_midi_def note_event_def note_to_midi_C)

lemma example_workflow_fails:
  "fst (midi_to_pdf_workflow (example_env\<lparr>canvas_final := c\<rparr>) ''out/song_piano.mid''
          ''out/song_sheet_music.pdf'' None
          (no_files(''out/song_piano.wav'' \<mapsto> 44, ''out/song_piano.mid'' \<mapsto> 80))) =
     Inl (Exception ''Error in MIDI to PDF workflow'')"
  by (simp add: no_files_def midi_to_pdf_workflow_def musicxml_to_pdf_def example_env_def
      default_musescore_path_def)

text \<open>
  Claim C4 as stated: when extraction succeeds, notes are found and the MIDI file is
  written, a failure of every renderer does not abort the pipeline. In the run below the
  workflow fails (MuseScore is not installed), music21 cannot write the PDF and the
  simple renderer fails twice; the last call is outside every \<open>try\<close>, and the pipeline
  raises its exception instead of returning the manifest.
\<close>

theorem pipeline_all_renderers_fail:
  "extract_piano_from_audio example_env = Inr [1/2, -1] \<and>
   extract_notes_from_piano_audio (55/2) 4186 (pyin_track example_env [1/2, -1]) =
     [(0, ''C'', 4, 26163/100, 1/8), (13/100, ''C'', 4, 26163/100, 1/8)] \<and>
   notes_to_midi (MIDIUTIL_AVAILABLE example_env) (midi_write example_env \<noteq> None) 120
       [(0, ''C'', 4, 26163/100, 1/8), (13/100, ''C'', 4, 26163/100, 1/8)] =
     Inr [\<lparr>midi_note = 60, time_beat = 0, duration_beat = 1/4\<rparr>,
          \<lparr>midi_note = 60, time_beat = 13/50, duration_beat = 1/4\<rparr>] \<and>
   fst (process_audio_to_piano_sheet example_env example_paths 120 no_files) =
     Inl (Exception ''Error creating simple PDF'')"
proof -
  have env: "pyin_track example_env [1/2, -1] = two_c4_segments (1/100) 10 3 10"
    "MIDIUTIL_AVAILABLE example_env" "midi_write example_env = Some 80"
    "sf_write example_env = Some 44" "MUSIC21_AVAILABLE example_env"
    "REPORTLAB_AVAILABLE example_env" "music21_pdf_write example_env = None"
    "canvas_in_fallback example_env = None" "canvas_final example_env = None"
    by (simp_all add: example_env_def)
  have w: "midi_to_pdf_workflow example_env ''out/song_piano.mid''
          ''out/song_sheet_music.pdf'' None
          (no_files(''out/song_piano.wav'' \<mapsto> 44, ''out/song_piano.mid'' \<mapsto> 80)) =
        (Inl (Exception ''Error in MIDI to PDF workflow''),
         no_files(''out/song_piano.wav'' \<mapsto> 44, ''out/song_piano.mid'' \<mapsto> 80,
          ''out/song_sheet_music.musicxml'' \<mapsto> 900))"
    by (simp add: no_files_def midi_to_pdf_workflow_def musicxml_to_pdf_def example_env_def
      default_musescore_path_def)
  have n: "fst (notation_stage example_env example_paths
             (no_files(''out/song_piano.wav'' \<mapsto> 44, ''out/song_piano.mid'' \<mapsto> 80))) =
        Inl (Exception ''Error creating simple PDF'')"
    by (simp add: notation_stage_def example_paths_def w generate_sheet_music_pdf_def
        generate_simple_sheet_pdf_def env)
  obtain f3 where n': "notation_stage example_env example_paths
             (no_files(''out/song_piano.wav'' \<mapsto> 44, ''out/song_piano.mid'' \<mapsto> 80)) =
        (Inl (Exception ''Error creating simple PDF''), f3)"
    using n by (cases "notation_stage example_env example_paths
             (no_files(''out/song_piano.wav'' \<mapsto> 44, ''out/song_piano.mid'' \<mapsto> 80))") simp
  have pa: "piano_audio_path example_paths = ''out/song_piano.wav''"
    "midi_path example_paths = ''out/song_piano.mid''"
    by (simp_all add: example_paths_def)
  have p: "fst (process_audio_to_piano_sheet example_env example_paths 120 no_files) =
     Inl (Exception ''Error creating simple PDF'')"
    by (simp add: process_audio_to_piano_sheet_def example_extract env example_notes example_midi
        pa n' Let_def)
  show ?thesis
    using p by (simp add: example_extract env example_notes example_midi)
qed

text \<open>
  Claim C4, amended: when extraction succeeds, notes are found and the MIDI file is
  written, the pipeline returns the manifest whenever one renderer of the chain succeeds
  (the MuseScore workflow, the music21 renderer, or the simple renderer at either of its
  two calls), whatever the failures before it and whether or not the synthesis succeeds;
  when every renderer fails, the pipeline raises.
\<close>

theorem pipeline_notation_fallback:
  assumes "extract_piano_from_audio e = Inr y"
    and "sf_write e = Some w"
    and "ns = extract_notes_from_piano_audio (55/2) 4186 (pyin_track e y)"
    and "ns \<noteq> []"
    and "notes_to_midi (MIDIUTIL_AVAILABLE e) (midi_write e \<noteq> None) tempo ns = Inr evs"
    and "midi_write e = Some sz"
  shows "(\<not> isl (fst (midi_to_pdf_workflow e (midi_path p) (pdf_path p) None
                       (files(piano_audio_path p \<mapsto> w, midi_path p \<mapsto> sz)))) \<or>
          MUSIC21_AVAILABLE e \<and> music21_pdf_write e \<noteq> None \<or>
          REPORTLAB_AVAILABLE e \<and> (canvas_in_fallback e \<noteq> None \<or> canvas_final e \<noteq> None)
          \<longrightarrow>
            fst (process_audio_to_piano_sheet e p tempo files) =
              Inr \<lparr>piano_audio = piano_audio_path p, midi = midi_path p, pdf = pdf_path p,
                    synthesized_audio =
                      (if PRETTY_MIDI_AVAILABLE e \<and> fluidsynth_write e \<noteq> None
                       then Some (synthesized_audio_path p) else None),
                    notes_count = length ns\<rparr>) \<and>
         (isl (fst (midi_to_pdf_workflow e (midi_path p) (pdf_path p) None
                       (files(piano_audio_path p \<mapsto> w, midi_path p \<mapsto> sz)))) \<and>
          \<not> (MUSIC21_AVAILABLE e \<and> music21_pdf_write e \<noteq> None) \<and>
          \<not> (REPORTLAB_AVAILABLE e \<and> (canvas_in_fallback e \<noteq> None \<or> canvas_final e \<noteq> None))
          \<longrightarrow> isl (fst (process_audio_to_piano_sheet e p tempo files)))"
proof -
  let ?files2 = "files(piano_audio_path p \<mapsto> w, midi_path p \<mapsto> sz)"
  obtain r3 f3 where n: "notation_stage e p ?files2 = (r3, f3)"
    by (cases "notation_stage e p ?files2")
  have st: "isl r3 \<longleftrightarrow>
     isl (fst (midi_to_pdf_workflow e (midi_path p) (pdf_path p) None ?files2)) \<and>
     \<not> (MUSIC21_AVAILABLE e \<and> music21_pdf_write e \<noteq> None \<or>
        REPORTLAB_AVAILABLE e \<and> (canvas_in_fallback e \<noteq> None \<or> canvas_final e \<noteq> None))"
    using notation_stage_fails[of e p ?files2] n by simp
  have proc: "process_audio_to_piano_sheet e p tempo files =
     (case r3 of
        Inl err \<Rightarrow> (Inl err, f3)
      | Inr _ \<Rightarrow>
          (Inr \<lparr>piano_audio = piano_audio_path p, midi = midi_path p, pdf = pdf_path p,
                synthesized_audio =
                  (if PRETTY_MIDI_AVAILABLE e \<and> fluidsynth_write e \<noteq> None
                   then Some (synthesized_audio_path p) else None),
                notes_count = length ns\<rparr>,
           snd (midi_to_audio e (synthesized_audio_path p) f3)))"
    unfolding process_audio_to_piano_sheet_def Let_def
    using assms(1,2,4,5,6) n
    by (simp add: assms(3)[symmetric] midi_to_audio_def split: sum.splits option.splits)
  show ?thesis
  proof (cases r3)
    case (Inl err)
    with proc st show ?thesis by simp
  next
    case (Inr ok)
    with proc st show ?thesis by simp
  qed
qed


theorem pipeline_notation_fallback_witness:
  "fst (process_audio_to_piano_sheet (example_env\<lparr>canvas_final := Some 1200\<rparr>) example_paths 120
         no_files) =
     Inr \<lparr>piano_audio = ''out/song_piano.wav'', midi = ''out/song_piano.mid'',
           pdf = ''out/song_sheet_music.pdf'', synthesized_audio = None, notes_count = 2\<rparr> \<and>
   isl (fst (process_audio_to_piano_sheet example_env example_paths 120 no_files))"
proof -
  let ?e = "example_env\<lparr>canvas_final := Some 1200\<rparr>"
  let ?ns = "[(0, ''C'', 4, 26163/100, 1/8), (13/100, ''C'', 4, 26163/100, 1/8)] :: note_tuple list"
  have x: "extract_piano_from_audio ?e = Inr [1/2, -1]"
    by (simp add: extract_piano_from_audio_def example_env_def peak_normalize_def np_max_def)
  have env: "sf_write ?e = Some 44" "midi_write ?e = Some 80"
    "pyin_track ?e [1/2, -1] = two_c4_segments (1/100) 10 3 10" "MIDIUTIL_AVAILABLE ?e"
    "REPORTLAB_AVAILABLE ?e" "canvas_final ?e = Some 1200" "\<not> PRETTY_MIDI_AVAILABLE ?e"
    by (simp_all add: example_env_def)
  have ns: "?ns = extract_notes_from_piano_audio (55/2) 4186 (pyin_track ?e [1/2, -1])"
    by (simp add: example_env_def example_notes)
  have m: "notes_to_midi (MIDIUTIL_AVAILABLE ?e) (midi_write ?e \<noteq> None) 120 ?ns =
     Inr [\<lparr>midi_note = 60, time_beat = 0, duration_beat = 1/4\<rparr>,
          \<lparr>midi_note = 60, time_beat = 13/50, duration_beat = 1/4\<rparr>]"
    by (simp add: example_env_def example_midi)
  have x0: "sf_write example_env = Some 44" "midi_write example_env = Some 80"
    "?ns = extract_notes_from_piano_audio (55/2) 4186 (pyin_track example_env [1/2, -1])"
    "notes_to_midi (MIDIUTIL_AVAILABLE example_env) (midi_write example_env \<noteq> None) 120 ?ns =
     Inr [\<lparr>midi_note = 60, time_beat = 0, duration_beat = 1/4\<rparr>,
          \<lparr>midi_note = 60, time_beat = 13/50, duration_beat = 1/4\<rparr>]"
    "\<not> (MUSIC21_AVAILABLE example_env \<and> music21_pdf_write example_env \<noteq> None)"
    "\<not> (REPORTLAB_AVAILABLE example_env \<and>
        (canvas_in_fallback example_env \<noteq> None \<or> canvas_final example_env \<noteq> None))"
    by (simp_all add: example_env_def example_notes example_midi)
  have wf: "isl (fst (midi_to_pdf_workflow example_env (midi_path example_paths)
               (pdf_path example_paths) None
               (no_files(piano_audio_path example_paths \<mapsto> 44, midi_path example_paths \<mapsto> 80))))"
    using example_workflow_fails[of "canvas_final example_env"]
    by (simp add: example_paths_def)
  have a: "fst (process_audio_to_piano_sheet ?e example_paths 120 no_files) =
     Inr \<lparr>piano_audio = ''out/song_piano.wav'', midi = ''out/song_piano.mid'',
           pdf = ''out/song_sheet_music.pdf'', synthesized_audio = None, notes_count = 2\<rparr>"
    using pipeline_notation_fallback[OF x env(1) ns _ m env(2), of example_paths no_files] env
    by (simp add: example_paths_def)
  have b: "isl (fst (process_audio_to_piano_sheet example_env example_paths 120 no_files))"
    using pipeline_notation_fallback[OF example_extract x0(1) x0(3) _ x0(4) x0(2),
        of example_paths no_files] wf x0(5,6)
    by simp
  from a b show ?thesis by simp
qed

end
